theory Spec2Isabelle
  imports Main "HOL-Library.AList"
begin

section \<open>Run-time environment\<close>

text \<open>
  The engine is the compiled JavaScript of \<^verbatim>\<open>soar-automation\<close>,
  \<^verbatim>\<open>violation-detector\<close> and \<^verbatim>\<open>infrastructure-monitor\<close>.
  Two library calls are not functions of the program state: \<^verbatim>\<open>new Date()\<close> and
  \<^verbatim>\<open>uuidv4()\<close>. Both are modelled as oracles: \<open>clockAt w n\<close> is the reading (in
  milliseconds) that the \<open>n\<close>-th \<^verbatim>\<open>new Date()\<close> of the process returns and
  \<open>uuidAt w n\<close> is the string that the \<open>n\<close>-th \<^verbatim>\<open>uuidv4()\<close> returns. Nothing is
  assumed about either oracle, so every theorem holds for every clock (also one that
  returns the same millisecond twice) and every id generator.
\<close>

record world =
  clockAt :: "nat \<Rightarrow> nat"
  uuidAt :: "nat \<Rightarrow> string"
  dateCalls :: nat
  uuidCalls :: nat

definition newDate :: "'a world_scheme \<Rightarrow> nat \<times> 'a world_scheme" where
  "newDate w = (clockAt w (dateCalls w), w\<lparr>dateCalls := Suc (dateCalls w)\<rparr>)"

definition uuidv4 :: "'a world_scheme \<Rightarrow> string \<times> 'a world_scheme" where
  "uuidv4 w = (uuidAt w (uuidCalls w), w\<lparr>uuidCalls := Suc (uuidCalls w)\<rparr>)"

text \<open>
  JavaScript values, as far as a condition step can compare them. \<open>JNum\<close> carries the
  integral numbers, \<open>JNaN\<close> the one number that is not equal to itself, \<open>JObj\<close> an object
  by its reference.
\<close>

datatype jsval = JUndefined | JNull | JBool bool | JNum int | JNaN | JStr string | JObj nat

text \<open>The operator \<^verbatim>\<open>===\<close>: no coercion, operands of different types are never equal.\<close>

fun strict_eq :: "jsval \<Rightarrow> jsval \<Rightarrow> bool" where
  "strict_eq JUndefined JUndefined = True"
| "strict_eq JNull JNull = True"
| "strict_eq (JBool a) (JBool b) = (a = b)"
| "strict_eq (JNum a) (JNum b) = (a = b)"
| "strict_eq (JStr a) (JStr b) = (a = b)"
| "strict_eq (JObj a) (JObj b) = (a = b)"
| "strict_eq _ _ = False"

text \<open>Truthiness of an optional string property: \<^verbatim>\<open>undefined\<close> and \<^verbatim>\<open>''\<close> are falsy.\<close>

fun truthy :: "string option \<Rightarrow> bool" where
  "truthy None = False"
| "truthy (Some s) = (s \<noteq> [])"

datatype js_error = TypeError


section \<open>Types (types/index)\<close>

datatype SeverityLevel = critical | high | medium | low | info

fun severity_str :: "SeverityLevel \<Rightarrow> string" where
  "severity_str critical = ''critical''"
| "severity_str high = ''high''"
| "severity_str medium = ''medium''"
| "severity_str low = ''low''"
| "severity_str info = ''info''"

datatype AssetType = domain | ip | certificate | cloud_resource

fun assetType_str :: "AssetType \<Rightarrow> string" where
  "assetType_str domain = ''domain''"
| "assetType_str ip = ''ip''"
| "assetType_str certificate = ''certificate''"
| "assetType_str cloud_resource = ''cloud_resource''"

datatype ViolationStatus = v_open | v_investigating | v_remediating | v_resolved | v_false_positive

datatype ComplianceFramework = SOC2 | ISO27001 | HIPAA | GDPR | PCI_DSS | CUSTOM

text \<open>Of a policy the checks read the id, the name and the framework.\<close>

record Policy =
  pol_id :: string
  pol_name :: string
  framework :: ComplianceFramework

text \<open>
  Of a certificate fact the checks read the domain, the validity flag and the days left,
  a whole number of days.
\<close>

record CertificateInfo =
  cert_domain :: string
  isValid :: bool
  daysUntilExpiry :: int

record ViolationEvidence =
  ev_type :: string
  ev_description :: string
  ev_data :: string
  ev_timestamp :: nat

record RemediationAction =
  rem_id :: string
  rem_type :: string
  rem_status :: string
  rem_description :: string

record Violation =
  v_id :: string
  policyId :: string
  policyName :: string
  assetId :: string
  assetType :: AssetType
  assetIdentifier :: string
  severity :: SeverityLevel
  status :: ViolationStatus
  title :: string
  description :: string
  detectedAt :: nat
  updatedAt :: nat
  resolvedAt :: "nat option"
  evidence :: "ViolationEvidence list"
  remediation :: "RemediationAction list"

text \<open>
  The payload of a notification step. TypeScript declares \<^verbatim>\<open>template\<close> and
  \<^verbatim>\<open>recipients\<close> as present; the compiled JavaScript checks neither, and it calls a
  method on each of them (\<^verbatim>\<open>template.replace\<close>, \<^verbatim>\<open>recipients.join\<close>). A playbook
  object that lacks one of them is therefore the input on which a step handler throws:
  \<open>None\<close> stands for a property that is \<^verbatim>\<open>undefined\<close> at run time.
\<close>

record Notification =
  channel :: string
  template :: "string option"
  recipients :: "string list option"

record Remediation =
  script :: string
  parameters :: "(string \<times> string) list"

record Condition =
  cond_field :: string
  operator :: string
  cond_value :: jsval

record Delay =
  seconds :: int

record StepConfig =
  action :: "string option"
  notification :: "Notification option"
  remediation_cfg :: "Remediation option"
  condition :: "Condition option"
  delay :: "Delay option"

record PlaybookStep =
  step_id :: string
  step_name :: string
  step_type :: string
  config :: StepConfig
  onSuccess :: "string option"
  onFailure :: "string option"

record TriggerConditions =
  tc_severity :: "SeverityLevel list option"
  tc_assetType :: "string list option"
  tc_policyId :: "string option"

text \<open>
  The trigger of a playbook and the conditions of a trigger are declared as present as
  well, and \<^verbatim>\<open>shouldTrigger\<close> reads a property of each (\<^verbatim>\<open>playbook.trigger.type\<close>,
  \<^verbatim>\<open>conditions.severity\<close>) without a check: again \<open>None\<close> stands for \<^verbatim>\<open>undefined\<close> at run
  time, on which the read throws a TypeError. Every other property is present or
  optional as its interface declares it.
\<close>

record PlaybookTrigger =
  trigger_type :: string
  conditions :: "TriggerConditions option"

record Playbook =
  pb_id :: string
  pb_name :: string
  pb_description :: string
  trigger :: "PlaybookTrigger option"
  steps :: "PlaybookStep list"
  enabled :: bool
  lastRun :: "nat option"

datatype IncidentStatus = i_open | i_investigating | i_mitigated | i_closed

datatype Priority = P1 | P2 | P3 | P4

record IncidentEvent =
  ie_id :: string
  ie_type :: string
  ie_description :: string
  ie_actor :: string
  ie_timestamp :: nat
  ie_data :: "(string \<times> jsval) list option"

record Incident =
  inc_id :: string
  inc_title :: string
  inc_description :: string
  inc_severity :: SeverityLevel
  inc_status :: IncidentStatus
  priority :: Priority
  assignee :: "string option"
  reporter :: string
  violationIds :: "string list"
  timeline :: "IncidentEvent list"
  createdAt :: nat
  inc_updatedAt :: nat
  inc_resolvedAt :: "nat option"

datatype RunResult = Success | Failure

record ExecutionEntry =
  playbookId :: string
  executedAt :: nat
  result :: RunResult


section \<open>SOARAutomation\<close>

text \<open>
  The three stores of the class. A JavaScript \<^verbatim>\<open>Map\<close> iterates in insertion order and
  \<^verbatim>\<open>set\<close> on a present key keeps its position: an association list under
  \<^const>\<open>AList.update\<close>. An incident object is shared between the map and the run that
  created it; the run holds it by its key, and every mutation of the object is an update
  of the entry under that key. The key is the id that \<^verbatim>\<open>uuidv4\<close> gave the object, so two
  objects are told apart as far as their ids differ.
\<close>

record SOARAutomation = world +
  playbooks :: "(string \<times> Playbook) list"
  incidents :: "(string \<times> Incident) list"
  executionHistory :: "ExecutionEntry list"

subsection \<open>Trigger matcher\<close>

text \<open>
  The result is the boolean that \<^verbatim>\<open>shouldTrigger\<close> returns, or the error it throws: the
  type of the trigger is read first, and the conditions only for a trigger of type
  \<^verbatim>\<open>violation\<close>.
\<close>

definition shouldTrigger :: "Playbook \<Rightarrow> Violation \<Rightarrow> js_error + bool" where
  "shouldTrigger playbook violation =
     (case trigger playbook of
        None \<Rightarrow> Inl TypeError
      | Some t \<Rightarrow>
          if trigger_type t \<noteq> ''violation'' then Inr False
          else
            (case conditions t of
               None \<Rightarrow> Inl TypeError
             | Some c \<Rightarrow>
                 if (case tc_severity c of None \<Rightarrow> False
                     | Some sevs \<Rightarrow> length sevs > 0 \<and> severity violation \<notin> set sevs)
                 then Inr False
                 else if (case tc_assetType c of None \<Rightarrow> False
                     | Some ats \<Rightarrow>
                         length ats > 0 \<and> assetType_str (assetType violation) \<notin> set ats)
                 then Inr False
                 else if truthy (tc_policyId c) \<and> Some (policyId violation) \<noteq> tc_policyId c
                 then Inr False
                 else Inr True))"

text \<open>
  The trigger predicate in the words of its specification, to compare with: each
  configured predicate must hold, a predicate that is absent holds, and so does a
  severity or asset-type set that is empty.
\<close>

definition shouldTrigger_spec :: "Playbook \<Rightarrow> Violation \<Rightarrow> bool" where
  "shouldTrigger_spec playbook violation =
     (case Option.bind (trigger playbook) conditions of
        None \<Rightarrow> False
      | Some c \<Rightarrow>
          (case tc_severity c of
             None \<Rightarrow> True | Some sevs \<Rightarrow> sevs = [] \<or> severity violation \<in> set sevs)
        \<and> (case tc_assetType c of
             None \<Rightarrow> True
           | Some ats \<Rightarrow> ats = [] \<or> assetType_str (assetType violation) \<in> set ats)
        \<and> (case tc_policyId c of
             None \<Rightarrow> True | Some p \<Rightarrow> p = policyId violation))"

subsection \<open>Execution ledger\<close>

text \<open>
  \<^verbatim>\<open>Array.prototype.slice(start)\<close> with one argument: a negative start counts from the
  end and is clamped at 0, a non-negative start is clamped at the length. Negating the
  limit 0 gives the start 0.
\<close>

definition slice_from :: "int \<Rightarrow> 'a list \<Rightarrow> 'a list" where
  "slice_from start xs =
     (let len = int (length xs);
          k = (if start < 0 then max (len + start) 0 else min start len)
      in drop (nat k) xs)"

definition getExecutionHistory :: "SOARAutomation \<Rightarrow> int option \<Rightarrow> ExecutionEntry list" where
  "getExecutionHistory st limit =
     slice_from (- (case limit of None \<Rightarrow> 10 | Some l \<Rightarrow> l)) (executionHistory st)"

subsection \<open>Incident lifecycle\<close>

fun severityToPriority :: "SeverityLevel \<Rightarrow> Priority" where
  "severityToPriority critical = P1"
| "severityToPriority high = P2"
| "severityToPriority medium = P3"
| "severityToPriority low = P4"
| "severityToPriority info = P4"

text \<open>A write through a reference to an incident object: the entry under its key changes.\<close>

definition modify :: "string \<Rightarrow> (Incident \<Rightarrow> Incident) \<Rightarrow> SOARAutomation \<Rightarrow> SOARAutomation" where
  "modify ref f st = st\<lparr>incidents := AList.map_entry ref f (incidents st)\<rparr>"

text \<open>
  The object literal is evaluated in source order: the incident id, the id and the
  timestamp of the \<^verbatim>\<open>created\<close> event, then \<^verbatim>\<open>createdAt\<close> and \<^verbatim>\<open>updatedAt\<close>. The result is
  the reference to the new object, which is its key in the map.
\<close>

definition createIncidentFromViolation :: "Violation \<Rightarrow> SOARAutomation \<Rightarrow> string \<times> SOARAutomation" where
  "createIncidentFromViolation violation st0 =
     (let pr = severityToPriority (severity violation);
          (iid, st1) = uuidv4 st0;
          (eid, st2) = uuidv4 st1;
          (ets, st3) = newDate st2;
          (cAt, st4) = newDate st3;
          (uAt, st5) = newDate st4;
          incident = \<lparr>inc_id = iid, inc_title = title violation,
            inc_description = description violation, inc_severity = severity violation,
            inc_status = i_open, priority = pr, assignee = None,
            reporter = ''ComplianceAgent'', violationIds = [v_id violation],
            timeline = [\<lparr>ie_id = eid, ie_type = ''created'',
              ie_description = ''Incident created from violation'',
              ie_actor = ''ComplianceAgent'', ie_timestamp = ets, ie_data = None\<rparr>],
            createdAt = cAt, inc_updatedAt = uAt, inc_resolvedAt = None\<rparr>
      in (iid, st5\<lparr>incidents := AList.update iid incident (incidents st5)\<rparr>))"

text \<open>The actor defaults to \<^verbatim>\<open>'ComplianceAgent'\<close> when the caller passes none.\<close>

definition addIncidentEvent ::
  "string \<Rightarrow> string \<Rightarrow> string \<Rightarrow> string option \<Rightarrow> (string \<times> jsval) list option
     \<Rightarrow> SOARAutomation \<Rightarrow> SOARAutomation" where
  "addIncidentEvent ref type descr actor dat st0 =
     (let (eid, st1) = uuidv4 st0;
          (ts, st2) = newDate st1;
          event = \<lparr>ie_id = eid, ie_type = type, ie_description = descr,
            ie_actor = (case actor of None \<Rightarrow> ''ComplianceAgent'' | Some a \<Rightarrow> a),
            ie_timestamp = ts, ie_data = dat\<rparr>;
          st3 = modify ref (\<lambda>i. i\<lparr>timeline := timeline i @ [event]\<rparr>) st2;
          (u, st4) = newDate st3
      in modify ref (\<lambda>i. i\<lparr>inc_updatedAt := u\<rparr>) st4)"

definition getIncident :: "SOARAutomation \<Rightarrow> string \<Rightarrow> Incident option" where
  "getIncident st ident = map_of (incidents st) ident"

definition getAllIncidents :: "SOARAutomation \<Rightarrow> Incident list" where
  "getAllIncidents st = map snd (incidents st)"

text \<open>
  \<^verbatim>\<open>Partial<Incident>\<close>: every property of an incident may be present or not; the
  optional properties \<^verbatim>\<open>assignee\<close> and \<^verbatim>\<open>resolvedAt\<close> may also be present and undefined.
  \<^verbatim>\<open>Object.assign\<close> copies the properties that are present.
\<close>

record IncidentUpdates =
  u_id :: "string option"
  u_title :: "string option"
  u_description :: "string option"
  u_severity :: "SeverityLevel option"
  u_status :: "IncidentStatus option"
  u_priority :: "Priority option"
  u_assignee :: "string option option"
  u_reporter :: "string option"
  u_violationIds :: "string list option"
  u_timeline :: "IncidentEvent list option"
  u_createdAt :: "nat option"
  u_updatedAt :: "nat option"
  u_resolvedAt :: "nat option option"

definition assign_opt :: "'a option \<Rightarrow> 'a \<Rightarrow> 'a" where
  "assign_opt upd old = (case upd of None \<Rightarrow> old | Some new \<Rightarrow> new)"

definition object_assign :: "Incident \<Rightarrow> IncidentUpdates \<Rightarrow> Incident" where
  "object_assign i u =
     \<lparr>inc_id = assign_opt (u_id u) (inc_id i),
      inc_title = assign_opt (u_title u) (inc_title i),
      inc_description = assign_opt (u_description u) (inc_description i),
      inc_severity = assign_opt (u_severity u) (inc_severity i),
      inc_status = assign_opt (u_status u) (inc_status i),
      priority = assign_opt (u_priority u) (priority i),
      assignee = assign_opt (u_assignee u) (assignee i),
      reporter = assign_opt (u_reporter u) (reporter i),
      violationIds = assign_opt (u_violationIds u) (violationIds i),
      timeline = assign_opt (u_timeline u) (timeline i),
      createdAt = assign_opt (u_createdAt u) (createdAt i),
      inc_updatedAt = assign_opt (u_updatedAt u) (inc_updatedAt i),
      inc_resolvedAt = assign_opt (u_resolvedAt u) (inc_resolvedAt i)\<rparr>"

text \<open>The result is the reference to the updated object, or \<open>None\<close> for \<^verbatim>\<open>undefined\<close>.\<close>

definition updateIncident ::
  "string \<Rightarrow> IncidentUpdates \<Rightarrow> SOARAutomation \<Rightarrow> string option \<times> SOARAutomation" where
  "updateIncident ident updates st =
     (case map_of (incidents st) ident of
        None \<Rightarrow> (None, st)
      | Some incident \<Rightarrow>
          (let st1 = modify ident (\<lambda>i. object_assign i updates) st;
               (u, st2) = newDate st1
           in (Some ident, modify ident (\<lambda>i. i\<lparr>inc_updatedAt := u\<rparr>) st2)))"

subsection \<open>Step handlers\<close>

record StepResult =
  success :: bool
  data :: "string option"

definition executeAction ::
  "PlaybookStep \<Rightarrow> Violation \<Rightarrow> string option \<Rightarrow> SOARAutomation \<Rightarrow> StepResult \<times> SOARAutomation" where
  "executeAction step violation incident st =
     (let a = action (config step) in
      if a = Some ''create_incident'' then
        (let (newIncident, st1) = createIncidentFromViolation violation st
         in (\<lparr>success = True, data = Some newIncident\<rparr>, st1))
      else if a = Some ''update_status'' then
        (case incident of
           None \<Rightarrow> (\<lparr>success = False, data = None\<rparr>, st)
         | Some r \<Rightarrow>
             (let st1 = modify r (\<lambda>i. i\<lparr>inc_status := i_investigating\<rparr>) st;
                  (u, st2) = newDate st1;
                  st3 = modify r (\<lambda>i. i\<lparr>inc_updatedAt := u\<rparr>) st2
              in (\<lparr>success = True, data = None\<rparr>,
                  addIncidentEvent r ''status_change'' ''Status updated to investigating''
                    None None st3)))
      else if a = Some ''assign'' then
        (case incident of
           None \<Rightarrow> (\<lparr>success = False, data = None\<rparr>, st)
         | Some r \<Rightarrow>
             (let st1 = modify r (\<lambda>i. i\<lparr>assignee := Some ''security-team''\<rparr>) st;
                  (u, st2) = newDate st1;
                  st3 = modify r (\<lambda>i. i\<lparr>inc_updatedAt := u\<rparr>) st2
              in (\<lparr>success = True, data = None\<rparr>,
                  addIncidentEvent r ''assignment'' ''Assigned to security team''
                    None None st3)))
      else if a = Some ''escalate'' then
        (case incident of
           None \<Rightarrow> (\<lparr>success = False, data = None\<rparr>, st)
         | Some r \<Rightarrow>
             (let st1 = modify r (\<lambda>i. i\<lparr>priority := P1\<rparr>) st;
                  (u, st2) = newDate st1;
                  st3 = modify r (\<lambda>i. i\<lparr>inc_updatedAt := u\<rparr>) st2
              in (\<lparr>success = True, data = None\<rparr>,
                  addIncidentEvent r ''escalation'' ''Incident escalated to P1''
                    None None st3)))
      else (\<lparr>success = False, data = None\<rparr>, st))"

text \<open>
  The rendered message goes to the console only, which is not part of the state; what
  remains of the handler is which property it reads, and in which order:
  \<^verbatim>\<open>template.replace\<close> first, then \<^verbatim>\<open>recipients.join\<close> for the channels
  \<^verbatim>\<open>slack\<close> and \<^verbatim>\<open>email\<close>. A method call on \<^verbatim>\<open>undefined\<close> throws a TypeError.
\<close>

definition executeNotification ::
  "PlaybookStep \<Rightarrow> Violation \<Rightarrow> string option \<Rightarrow> js_error + StepResult" where
  "executeNotification step violation incident =
     (case notification (config step) of
        None \<Rightarrow> Inr \<lparr>success = False, data = None\<rparr>
      | Some n \<Rightarrow>
          (case template n of
             None \<Rightarrow> Inl TypeError
           | Some t \<Rightarrow>
               if channel n = ''slack'' \<or> channel n = ''email'' then
                 (case recipients n of
                    None \<Rightarrow> Inl TypeError
                  | Some rs \<Rightarrow> Inr \<lparr>success = True, data = None\<rparr>)
               else Inr \<lparr>success = True, data = None\<rparr>))"

text \<open>
  The timer suspends the run; when it resumes, the clock oracle gives whatever the time
  then is.
\<close>

definition executeDelay :: "PlaybookStep \<Rightarrow> StepResult" where
  "executeDelay step =
     (case delay (config step) of
        None \<Rightarrow> \<lparr>success = False, data = None\<rparr>
      | Some d \<Rightarrow> \<lparr>success = True, data = None\<rparr>)"

text \<open>
  The field \<^verbatim>\<open>acknowledged\<close> reads the assignee of the bound incident object. A
  reference always names an object of the map; for a key that is not in the map the
  model answers as for no incident.
\<close>

definition executeCondition ::
  "PlaybookStep \<Rightarrow> Violation \<Rightarrow> string option \<Rightarrow> SOARAutomation \<Rightarrow> StepResult" where
  "executeCondition step violation incident st =
     (case condition (config step) of
        None \<Rightarrow> \<lparr>success = False, data = None\<rparr>
      | Some c \<Rightarrow>
          (let val =
             (if cond_field c = ''acknowledged'' then
                (case incident of
                   None \<Rightarrow> JBool False
                 | Some r \<Rightarrow>
                     (case map_of (incidents st) r of
                        None \<Rightarrow> JBool False
                      | Some i \<Rightarrow> JBool (truthy (assignee i))))
              else if cond_field c = ''severity'' then JStr (severity_str (severity violation))
              else JUndefined);
               matches = strict_eq val (cond_value c)
           in \<lparr>success = matches, data = None\<rparr>))"

definition executeRemediation :: "PlaybookStep \<Rightarrow> Violation \<Rightarrow> string option \<Rightarrow> StepResult" where
  "executeRemediation step violation incident =
     (case remediation_cfg (config step) of
        None \<Rightarrow> \<lparr>success = False, data = None\<rparr>
      | Some r \<Rightarrow> \<lparr>success = True, data = None\<rparr>)"

definition executeStep ::
  "PlaybookStep \<Rightarrow> Violation \<Rightarrow> string option \<Rightarrow> SOARAutomation
     \<Rightarrow> (js_error + StepResult) \<times> SOARAutomation" where
  "executeStep step violation incident st =
     (if step_type step = ''action'' then
        (let (r, st1) = executeAction step violation incident st in (Inr r, st1))
      else if step_type step = ''notification'' then
        (executeNotification step violation incident, st)
      else if step_type step = ''delay'' then (Inr (executeDelay step), st)
      else if step_type step = ''condition'' then
        (Inr (executeCondition step violation incident st), st)
      else if step_type step = ''remediation'' then
        (Inr (executeRemediation step violation incident), st)
      else (Inr \<lparr>success = True, data = None\<rparr>, st))"

subsection \<open>Step executor\<close>

text \<open>
  One pass through the body of the \<^verbatim>\<open>while\<close> loop of \<^verbatim>\<open>executePlaybook\<close>, from the
  test of the loop condition on. The loop is left when the current step id is falsy
  or names no step of the playbook (\<open>Exit\<close>, with the bound incident), a handler that
  throws leaves it by the exception (\<open>Throw\<close>), otherwise the next pass starts at the
  id of the transition taken (\<open>Continue\<close>).
\<close>

datatype iteration =
    Exit "string option" SOARAutomation
  | Throw js_error SOARAutomation
  | Continue "string option" "string option" SOARAutomation

definition currentStep :: "Playbook \<Rightarrow> string option \<Rightarrow> PlaybookStep option" where
  "currentStep playbook currentStepId =
     (if \<not> truthy currentStepId then None
      else find (\<lambda>s. Some (step_id s) = currentStepId) (steps playbook))"

definition createsIncident :: "PlaybookStep \<Rightarrow> bool" where
  "createsIncident step =
     (step_type step = ''action'' \<and> action (config step) = Some ''create_incident'')"

definition loopIteration ::
  "Playbook \<Rightarrow> Violation \<Rightarrow> string option \<Rightarrow> string option \<Rightarrow> SOARAutomation \<Rightarrow> iteration" where
  "loopIteration playbook violation currentStepId incident st =
     (case currentStep playbook currentStepId of
        None \<Rightarrow> Exit incident st
      | Some step \<Rightarrow>
          (case executeStep step violation incident st of
             (Inl e, st1) \<Rightarrow> Throw e st1
           | (Inr r, st1) \<Rightarrow>
               Continue (if success r then onSuccess step else onFailure step)
                 (if createsIncident step then data r else incident) st1))"

text \<open>
  The loop itself. It has no bound of its own: \<open>None\<close> is a run that never leaves it.
  \<open>Some (Inr incident, st)\<close> is the normal exit with the bound incident,
  \<open>Some (Inl e, st)\<close> an exception, with the state as the steps before it left it.
\<close>

partial_function (option) stepLoop ::
  "Playbook \<Rightarrow> Violation \<Rightarrow> string option \<Rightarrow> string option \<Rightarrow> SOARAutomation
     \<Rightarrow> ((js_error + string option) \<times> SOARAutomation) option" where
  "stepLoop playbook violation currentStepId incident st =
     (case loopIteration playbook violation currentStepId incident st of
        Exit i st1 \<Rightarrow> Some (Inr i, st1)
      | Throw e st1 \<Rightarrow> Some (Inl e, st1)
      | Continue next i st1 \<Rightarrow> stepLoop playbook violation next i st1)"

declare stepLoop.simps [code]

definition firstStepId :: "Playbook \<Rightarrow> string option" where
  "firstStepId playbook = (case steps playbook of [] \<Rightarrow> None | s # _ \<Rightarrow> Some (step_id s))"

text \<open>
  \<^verbatim>\<open>executePlaybook\<close>: the \<^verbatim>\<open>try\<close> block is the loop followed by the ledger entry and
  the write of \<^verbatim>\<open>lastRun\<close>; the \<^verbatim>\<open>catch\<close> block writes its own ledger entry and returns
  \<^verbatim>\<open>null\<close>. The result is the returned incident reference, the playbook object as the
  call leaves it, and the state.
\<close>

definition executePlaybook ::
  "Playbook \<Rightarrow> Violation \<Rightarrow> SOARAutomation
     \<Rightarrow> (string option \<times> Playbook \<times> SOARAutomation) option" where
  "executePlaybook playbook violation st =
     (case stepLoop playbook violation (firstStepId playbook) None st of
        None \<Rightarrow> None
      | Some (Inr incident, st1) \<Rightarrow>
          (let (t1, st2) = newDate st1;
               st3 = st2\<lparr>executionHistory := executionHistory st2 @
                 [\<lparr>playbookId = pb_id playbook, executedAt = t1, result = Success\<rparr>]\<rparr>;
               (t2, st4) = newDate st3
           in Some (incident, playbook\<lparr>lastRun := Some t2\<rparr>, st4))
      | Some (Inl e, st1) \<Rightarrow>
          (let (t1, st2) = newDate st1;
               st3 = st2\<lparr>executionHistory := executionHistory st2 @
                 [\<lparr>playbookId = pb_id playbook, executedAt = t1, result = Failure\<rparr>]\<rparr>
           in Some (None, playbook, st3)))"

subsection \<open>Orchestration\<close>




subsection \<open>Default playbooks\<close>

text \<open>
  The playbooks that the constructor registers, in registration order. Each template
  starts with an emoji in the source; the model keeps the rest of the text.
\<close>

definition mkStep ::
  "string \<Rightarrow> string \<Rightarrow> string \<Rightarrow> StepConfig \<Rightarrow> string option \<Rightarrow> string option \<Rightarrow> PlaybookStep" where
  "mkStep i n t c s f =
     \<lparr>step_id = i, step_name = n, step_type = t, config = c, onSuccess = s, onFailure = f\<rparr>"

definition noConfig :: StepConfig where
  "noConfig = \<lparr>action = None, notification = None, remediation_cfg = None,
     condition = None, delay = None\<rparr>"

definition slack :: "string \<Rightarrow> string list \<Rightarrow> StepConfig" where
  "slack t rs = noConfig\<lparr>notification :=
     Some \<lparr>channel = ''slack'', template = Some t, recipients = Some rs\<rparr>\<rparr>"

definition severityTrigger :: "SeverityLevel list \<Rightarrow> PlaybookTrigger option" where
  "severityTrigger sevs = Some \<lparr>trigger_type = ''violation'',
     conditions = Some \<lparr>tc_severity = Some sevs, tc_assetType = None, tc_policyId = None\<rparr>\<rparr>"

definition critical_alert :: Playbook where
  "critical_alert =
     \<lparr>pb_id = ''critical-alert'', pb_name = ''Critical Violation Alert'',
      pb_description = ''Automatically alert on critical severity violations'',
      trigger = severityTrigger [critical],
      steps =
        [mkStep ''step-1'' ''Create Incident'' ''action''
           (noConfig\<lparr>action := Some ''create_incident''\<rparr>) (Some ''step-2'') (Some ''end''),
         mkStep ''step-2'' ''Send Slack Alert'' ''notification''
           (slack ''Critical Violation Detected: {{violation.title}}'' [''#security-alerts''])
           (Some ''step-3'') (Some ''end''),
         mkStep ''step-3'' ''Escalate to On-Call'' ''action''
           (noConfig\<lparr>action := Some ''escalate''\<rparr>) None None],
      enabled = True, lastRun = None\<rparr>"

definition high_severity_response :: Playbook where
  "high_severity_response =
     \<lparr>pb_id = ''high-severity-response'', pb_name = ''High Severity Response'',
      pb_description = ''Automated response for high severity violations'',
      trigger = severityTrigger [high],
      steps =
        [mkStep ''step-1'' ''Create Incident'' ''action''
           (noConfig\<lparr>action := Some ''create_incident''\<rparr>) None None,
         mkStep ''step-2'' ''Send Notification'' ''notification''
           (slack ''High Severity Violation: {{violation.title}}'' [''#security-team''])
           None None],
      enabled = True, lastRun = None\<rparr>"

definition cert_expiry_alert :: Playbook where
  "cert_expiry_alert =
     \<lparr>pb_id = ''cert-expiry-alert'', pb_name = ''Certificate Expiry Alert'',
      pb_description = ''Alert when certificates are expiring'',
      trigger = severityTrigger [critical, high],
      steps =
        [mkStep ''step-1'' ''Create Incident'' ''action''
           (noConfig\<lparr>action := Some ''create_incident''\<rparr>) None None,
         mkStep ''step-2'' ''Wait for Acknowledgment'' ''delay''
           (noConfig\<lparr>delay := Some \<lparr>seconds = 300\<rparr>\<rparr>) None None,
         mkStep ''step-3'' ''Escalate if Unacknowledged'' ''condition''
           (noConfig\<lparr>condition := Some \<lparr>cond_field = ''acknowledged'',
              operator = ''equals'', cond_value = JBool False\<rparr>\<rparr>) None (Some ''step-4''),
         mkStep ''step-4'' ''Send Escalation'' ''notification''
           (slack ''Certificate Expiry Unacknowledged: {{violation.title}}''
              [''#security-alerts'']) None None],
      enabled = True, lastRun = None\<rparr>"

definition initializeDefaultPlaybooks :: "(string \<times> Playbook) list" where
  "initializeDefaultPlaybooks =
     AList.update ''cert-expiry-alert'' cert_expiry_alert
       (AList.update ''high-severity-response'' high_severity_response
          (AList.update ''critical-alert'' critical_alert []))"

text \<open>\<^verbatim>\<open>new SOARAutomation()\<close> in a process with the given clock and id generator.\<close>

definition newSOARAutomation :: "(nat \<Rightarrow> nat) \<Rightarrow> (nat \<Rightarrow> string) \<Rightarrow> SOARAutomation" where
  "newSOARAutomation clk gen =
     \<lparr>clockAt = clk, uuidAt = gen, dateCalls = 0, uuidCalls = 0,
      playbooks = initializeDefaultPlaybooks, incidents = [], executionHistory = []\<rparr>"

definition addPlaybook :: "Playbook \<Rightarrow> SOARAutomation \<Rightarrow> SOARAutomation" where
  "addPlaybook playbook st =
     st\<lparr>playbooks := AList.update (pb_id playbook) playbook (playbooks st)\<rparr>"


section \<open>InfrastructureMonitor and ViolationDetector\<close>

record CertificateExpiry =
  isExpiring :: bool
  daysLeft :: int
  exp_severity :: SeverityLevel

definition checkCertificateExpiry :: "CertificateInfo \<Rightarrow> CertificateExpiry" where
  "checkCertificateExpiry cert =
     (let d = daysUntilExpiry cert in
      if d \<le> 7 then \<lparr>isExpiring = True, daysLeft = d, exp_severity = critical\<rparr>
      else if d \<le> 30 then \<lparr>isExpiring = True, daysLeft = d, exp_severity = high\<rparr>
      else if d \<le> 60 then \<lparr>isExpiring = True, daysLeft = d, exp_severity = medium\<rparr>
      else \<lparr>isExpiring = False, daysLeft = d, exp_severity = low\<rparr>)"

text \<open>\<^verbatim>\<open>policy?.id || 'system'\<close>: the default also replaces an empty string.\<close>

definition or_default :: "string option \<Rightarrow> string \<Rightarrow> string" where
  "or_default s d = (case s of None \<Rightarrow> d | Some x \<Rightarrow> if x = [] then d else x)"

text \<open>
  \<^verbatim>\<open>checkCertificate\<close>. \<^verbatim>\<open>JSON.stringify\<close> and the conversion of a number to a string in
  a template literal belong to the language, not to the program, and are taken as the
  parameters \<open>stringify\<close> and \<open>numberToString\<close>. The properties of each object literal
  are evaluated in source order, which fixes the order of the ids and the clock
  readings.
\<close>

definition checkCertificate ::
  "(CertificateInfo \<Rightarrow> string) \<Rightarrow> (int \<Rightarrow> string) \<Rightarrow> CertificateInfo \<Rightarrow> Policy list
     \<Rightarrow> 'a world_scheme \<Rightarrow> Violation list \<times> 'a world_scheme" where
  "checkCertificate stringify numberToString cert policies w0 =
     (let expiryCheck = checkCertificateExpiry cert;
          (violations1, w1) =
            (if isExpiring expiryCheck then
               (let policy = find (\<lambda>p. framework p = SOC2) policies;
                    (vid, wa) = uuidv4 w0;
                    (dAt, wb) = newDate wa;
                    (uAt, wc) = newDate wb;
                    (eAt, wd) = newDate wc;
                    (rid, we) = uuidv4 wd
                in ([\<lparr>v_id = vid,
                      policyId = or_default (map_option pol_id policy) ''system'',
                      policyName = or_default (map_option pol_name policy) ''Certificate Policy'',
                      assetId = cert_domain cert, assetType = certificate,
                      assetIdentifier = cert_domain cert,
                      severity = exp_severity expiryCheck, status = v_open,
                      title = ''Certificate Expiring in ''
                        @ numberToString (daysLeft expiryCheck) @ '' Days'',
                      description = ''SSL/TLS certificate for '' @ cert_domain cert
                        @ '' will expire in '' @ numberToString (daysLeft expiryCheck)
                        @ '' days. Immediate renewal is required.'',
                      detectedAt = dAt, updatedAt = uAt, resolvedAt = None,
                      evidence = [\<lparr>ev_type = ''certificate'',
                        ev_description = ''Certificate expiration info'',
                        ev_data = stringify cert, ev_timestamp = eAt\<rparr>],
                      remediation = [\<lparr>rem_id = rid, rem_type = ''manual'',
                        rem_status = ''pending'',
                        rem_description = ''Renew SSL/TLS certificate''\<rparr>]\<rparr>], we))
             else ([], w0));
          (violations2, w2) =
            (if \<not> isValid cert then
               (let (vid, wa) = uuidv4 w1;
                    (dAt, wb) = newDate wa;
                    (uAt, wc) = newDate wb;
                    (eAt, wd) = newDate wc;
                    (rid, we) = uuidv4 wd
                in ([\<lparr>v_id = vid, policyId = ''system'', policyName = ''Certificate Policy'',
                      assetId = cert_domain cert, assetType = certificate,
                      assetIdentifier = cert_domain cert,
                      severity = critical, status = v_open,
                      title = ''Invalid SSL/TLS Certificate'',
                      description = ''SSL/TLS certificate for '' @ cert_domain cert
                        @ '' is invalid. This may cause security warnings and service disruptions.'',
                      detectedAt = dAt, updatedAt = uAt, resolvedAt = None,
                      evidence = [\<lparr>ev_type = ''certificate'',
                        ev_description = ''Certificate validation failure'',
                        ev_data = stringify cert, ev_timestamp = eAt\<rparr>],
                      remediation = [\<lparr>rem_id = rid, rem_type = ''manual'',
                        rem_status = ''pending'',
                        rem_description = ''Replace with valid certificate''\<rparr>]\<rparr>], we))
             else ([], w1))
      in (violations1 @ violations2, w2))"

text \<open>The violation store of the detector.\<close>

record ViolationDetector = world +
  violations :: "(string \<times> Violation) list"

definition getViolation :: "ViolationDetector \<Rightarrow> string \<Rightarrow> Violation option" where
  "getViolation st ident = map_of (violations st) ident"

text \<open>
  \<^verbatim>\<open>updateViolationStatus\<close> writes through the object found in the map; the result is
  the object after the writes, or \<open>None\<close> for \<^verbatim>\<open>undefined\<close>.
\<close>

definition updateViolationStatus ::
  "string \<Rightarrow> ViolationStatus \<Rightarrow> ViolationDetector \<Rightarrow> Violation option \<times> ViolationDetector" where
  "updateViolationStatus ident new_status st =
     (case map_of (violations st) ident of
        None \<Rightarrow> (None, st)
      | Some violation \<Rightarrow>
          (let v1 = violation\<lparr>status := new_status\<rparr>;
               (u, st1) = newDate st;
               v2 = v1\<lparr>updatedAt := u\<rparr>;
               (v3, st2) =
                 (if new_status = v_resolved then
                    (let (r, st') = newDate st1 in (v2\<lparr>resolvedAt := Some r\<rparr>, st'))
                  else (v2, st1))
           in (Some v3, st2\<lparr>violations := AList.map_entry ident (\<lambda>_. v3) (violations st2)\<rparr>)))"

section \<open>Sample inputs\<close>

text \<open>
  The decimal digits of a whole number, with a sign when negative: what a template
  literal makes of a whole number of magnitude below ten to the power 21, and the numbering
  of the sample ids.
\<close>

fun show_nat :: "nat \<Rightarrow> string" where
  "show_nat n =
     (if n < 10 then [''0123456789'' ! n]
      else show_nat (n div 10) @ [''0123456789'' ! (n mod 10)])"

definition show_int :: "int \<Rightarrow> string" where
  "show_int i = (if i < 0 then ''-'' @ show_nat (nat (- i)) else show_nat (nat i))"

text \<open>
  A process whose clock advances by one millisecond per reading and whose id generator
  counts, and one whose clock stands still for the length of the calls.
\<close>

definition tickingClock :: "nat \<Rightarrow> nat" where
  "tickingClock n = 1000 + n"

definition frozenClock :: "nat \<Rightarrow> nat" where
  "frozenClock n = 1000"

definition countingIds :: "nat \<Rightarrow> string" where
  "countingIds n = ''id-'' @ show_nat n"

definition sampleViolation :: Violation where
  "sampleViolation =
     \<lparr>v_id = ''v-1'', policyId = ''system'', policyName = ''Certificate Policy'',
      assetId = ''example.com'', assetType = certificate, assetIdentifier = ''example.com'',
      severity = critical, status = v_open, title = ''Invalid SSL/TLS Certificate'',
      description = ''SSL/TLS certificate for example.com is invalid.'',
      detectedAt = 900, updatedAt = 900, resolvedAt = None, evidence = [], remediation = []\<rparr>"

definition domainViolation :: Violation where
  "domainViolation = sampleViolation\<lparr>assetType := domain, title := ''Missing SPF Record''\<rparr>"

text \<open>A trigger on critical violations of IP assets.\<close>

definition criticalIpPlaybook :: Playbook where
  "criticalIpPlaybook = critical_alert\<lparr>pb_id := ''critical-ip'',
     trigger := Some \<lparr>trigger_type = ''violation'',
       conditions = Some \<lparr>tc_severity = Some [critical], tc_assetType = Some [''ip''],
         tc_policyId = None\<rparr>\<rparr>\<rparr>"

text \<open>A trigger whose \<^verbatim>\<open>policyId\<close> is present and is the empty string.\<close>

definition emptyPolicyPlaybook :: Playbook where
  "emptyPolicyPlaybook = critical_alert\<lparr>pb_id := ''empty-policy'',
     trigger := Some \<lparr>trigger_type = ''violation'',
       conditions = Some \<lparr>tc_severity = None, tc_assetType = None,
         tc_policyId = Some []\<rparr>\<rparr>\<rparr>"


text \<open>
  A playbook that creates an incident and then notifies a Slack channel, with no
  \<^verbatim>\<open>recipients\<close> in the notification payload; it ran before, at time 5.
\<close>

definition brokenPlaybook :: Playbook where
  "brokenPlaybook =
     \<lparr>pb_id = ''broken'', pb_name = ''Notify without recipients'', pb_description = [],
      trigger = severityTrigger [],
      steps =
        [mkStep ''a'' ''Create Incident'' ''action''
           (noConfig\<lparr>action := Some ''create_incident''\<rparr>) (Some ''b'') None,
         mkStep ''b'' ''Notify'' ''notification''
           (noConfig\<lparr>notification :=
              Some \<lparr>channel = ''slack'', template = Some ''{{violation.title}}'',
                recipients = None\<rparr>\<rparr>) None None],
      enabled = True, lastRun = Some 5\<rparr>"

text \<open>A playbook whose only step names itself as its successor.\<close>

definition loopingPlaybook :: Playbook where
  "loopingPlaybook =
     \<lparr>pb_id = ''looping'', pb_name = ''Remediate again and again'', pb_description = [],
      trigger = severityTrigger [],
      steps =
        [mkStep ''again'' ''Remediate'' ''remediation''
           (noConfig\<lparr>remediation_cfg := Some \<lparr>script = ''fix.sh'', parameters = []\<rparr>\<rparr>)
           (Some ''again'') None],
      enabled = True, lastRun = None\<rparr>"

definition sampleSOAR :: SOARAutomation where
  "sampleSOAR = newSOARAutomation tickingClock countingIds"



text \<open>A ledger of three runs.\<close>

definition sampleLedger :: "ExecutionEntry list" where
  "sampleLedger =
     [\<lparr>playbookId = ''critical-alert'', executedAt = 1006, result = Success\<rparr>,
      \<lparr>playbookId = ''cert-expiry-alert'', executedAt = 1011, result = Success\<rparr>,
      \<lparr>playbookId = ''broken'', executedAt = 1020, result = Failure\<rparr>]"

definition closeUpdate :: IncidentUpdates where
  "closeUpdate =
     \<lparr>u_id = None, u_title = None, u_description = None, u_severity = None,
      u_status = Some i_closed, u_priority = None, u_assignee = None, u_reporter = None,
      u_violationIds = None, u_timeline = None, u_createdAt = None, u_updatedAt = None,
      u_resolvedAt = None\<rparr>"

text \<open>An incident created while the clock stands still.\<close>

definition frozenSOAR :: SOARAutomation where
  "frozenSOAR =
     snd (createIncidentFromViolation sampleViolation (newSOARAutomation frozenClock countingIds))"

definition sampleCert :: CertificateInfo where
  "sampleCert = \<lparr>cert_domain = ''example.com'', isValid = False, daysUntilExpiry = 20\<rparr>"

definition sampleWorld :: world where
  "sampleWorld = \<lparr>clockAt = tickingClock, uuidAt = countingIds, dateCalls = 0, uuidCalls = 0\<rparr>"

text \<open>A detector that holds one violation, already resolved.\<close>

definition sampleDetector :: ViolationDetector where
  "sampleDetector =
     \<lparr>clockAt = tickingClock, uuidAt = countingIds, dateCalls = 0, uuidCalls = 0,
      violations = [(''v-1'', sampleViolation\<lparr>status := v_resolved, resolvedAt := Some 950\<rparr>)]\<rparr>"

text \<open>The sample process after one incident was created from the sample violation.\<close>

definition createdSOAR :: SOARAutomation where
  "createdSOAR = snd (createIncidentFromViolation sampleViolation sampleSOAR)"


text \<open>A ranking of the step ids of the first default playbook, highest first.\<close>

definition criticalAlertRank :: "string \<Rightarrow> nat" where
  "criticalAlertRank s =
     (if s = ''step-1'' then 3 else if s = ''step-2'' then 2
      else if s = ''step-3'' then 1 else 0)"


section \<open>Runs in progress\<close>

text \<open>
  The loop variables are the current step id, the bound incident and the state.
  \<open>reaches playbook violation c c'\<close>: the loop, started with the variables \<open>c\<close>, has the
  variables \<open>c'\<close> at the start of some later pass.
\<close>

inductive reaches ::
  "Playbook \<Rightarrow> Violation \<Rightarrow> string option \<times> string option \<times> SOARAutomation
     \<Rightarrow> string option \<times> string option \<times> SOARAutomation \<Rightarrow> bool"
  for playbook violation c where
    start: "reaches playbook violation c c"
  | pass: "reaches playbook violation c (cur, inc, st) \<Longrightarrow>
       loopIteration playbook violation cur inc st = Continue cur' inc' st' \<Longrightarrow>
       reaches playbook violation c (cur', inc', st')"

text \<open>
  An incident of the store that was created from the violation and is still filed
  under the id it was created with.
\<close>

definition registered :: "Violation \<Rightarrow> string \<Rightarrow> SOARAutomation \<Rightarrow> bool" where
  "registered violation k st =
     (case getIncident st k of
        None \<Rightarrow> False
      | Some i \<Rightarrow> inc_id i = k \<and> violationIds i = [v_id violation])"


section \<open>Trigger matcher: the predicates are conjunctive\<close>

text \<open>
  C3, as the code has it. \<open>shouldTrigger\<close> returns true exactly when the trigger is of
  type \<^verbatim>\<open>violation\<close> and each of the three predicates holds: the severity set is absent
  or empty or contains the severity of the violation; the asset-type set is absent or
  empty or contains its asset type; the policy id is absent or the empty string or
  equals its policy id. An absent predicate is vacuously true, and so is a policy id
  that is present but empty, since the guard tests it for truthiness. For a playbook
  that has its trigger and its conditions, as the interface declares, the call returns
  the truth value of this conjunction.
\<close>

theorem shouldTrigger_conjunctive:
  "(shouldTrigger playbook violation = Inr True \<longleftrightarrow>
      (\<exists>t c. trigger playbook = Some t \<and> conditions t = Some c
         \<and> trigger_type t = ''violation''
         \<and> (case tc_severity c of
              None \<Rightarrow> True | Some sevs \<Rightarrow> sevs = [] \<or> severity violation \<in> set sevs)
         \<and> (case tc_assetType c of
              None \<Rightarrow> True
            | Some ats \<Rightarrow> ats = [] \<or> assetType_str (assetType violation) \<in> set ats)
         \<and> (case tc_policyId c of
              None \<Rightarrow> True | Some p \<Rightarrow> p = [] \<or> p = policyId violation)))
   \<and> (\<forall>t c. trigger playbook = Some t \<longrightarrow> conditions t = Some c \<longrightarrow>
         shouldTrigger playbook violation =
           Inr (trigger_type t = ''violation''
              \<and> (case tc_severity c of
                   None \<Rightarrow> True | Some sevs \<Rightarrow> sevs = [] \<or> severity violation \<in> set sevs)
              \<and> (case tc_assetType c of
                   None \<Rightarrow> True
                 | Some ats \<Rightarrow> ats = [] \<or> assetType_str (assetType violation) \<in> set ats)
              \<and> (case tc_policyId c of
                   None \<Rightarrow> True | Some p \<Rightarrow> p = [] \<or> p = policyId violation)))"
  by (auto simp: shouldTrigger_def split: option.splits)

text \<open>
  The playbook with severity \<open>{critical}\<close> and asset type \<open>{ip}\<close> does not trigger for a
  critical domain violation, and triggers for a critical IP violation.
\<close>

theorem shouldTrigger_conjunctive_witness:
  "shouldTrigger criticalIpPlaybook domainViolation = Inr False
   \<and> shouldTrigger criticalIpPlaybook (sampleViolation\<lparr>assetType := ip\<rparr>) = Inr True"
  using shouldTrigger_conjunctive [of criticalIpPlaybook domainViolation]
    shouldTrigger_conjunctive [of criticalIpPlaybook "sampleViolation\<lparr>assetType := ip\<rparr>"]
  by (simp add: criticalIpPlaybook_def domainViolation_def sampleViolation_def)

text \<open>
  C3 as stated fails: with the policy id present and empty, the playbook, whose trigger
  is of type \<^verbatim>\<open>violation\<close>, triggers for a violation of the policy \<^verbatim>\<open>system\<close>, although
  the policy id is neither absent nor equal to the one of the violation.
\<close>

theorem shouldTrigger_empty_policyId_counterexample:
  "map_option trigger_type (trigger emptyPolicyPlaybook) = Some ''violation''
   \<and> shouldTrigger emptyPolicyPlaybook sampleViolation = Inr True
   \<and> \<not> shouldTrigger_spec emptyPolicyPlaybook sampleViolation"
  by (simp add: shouldTrigger_def shouldTrigger_spec_def emptyPolicyPlaybook_def
        sampleViolation_def)


section \<open>Execution ledger: the bounded suffix\<close>

text \<open>
  C8. For a positive limit \<open>n\<close> the result is the last \<open>min n length\<close> entries of the
  ledger, in ledger order; for the limit 0 it is the whole ledger; with no limit given
  the limit is 10.
\<close>

theorem getExecutionHistory_suffix:
  "(0 < n \<longrightarrow>
      getExecutionHistory st (Some n) =
        drop (length (executionHistory st) - min (nat n) (length (executionHistory st)))
          (executionHistory st)
      \<and> length (getExecutionHistory st (Some n)) = min (nat n) (length (executionHistory st)))
   \<and> getExecutionHistory st (Some 0) = executionHistory st
   \<and> getExecutionHistory st None = getExecutionHistory st (Some 10)"
  by (auto simp: getExecutionHistory_def slice_from_def Let_def min_def max_def nat_diff_distrib')

theorem getExecutionHistory_suffix_witness:
  "getExecutionHistory (sampleSOAR\<lparr>executionHistory := sampleLedger\<rparr>) (Some 2)
     = drop 1 sampleLedger
   \<and> getExecutionHistory (sampleSOAR\<lparr>executionHistory := sampleLedger\<rparr>) (Some 5) = sampleLedger
   \<and> getExecutionHistory (sampleSOAR\<lparr>executionHistory := sampleLedger\<rparr>) (Some 0) = sampleLedger
   \<and> getExecutionHistory (sampleSOAR\<lparr>executionHistory := sampleLedger\<rparr>) None = sampleLedger"
  using getExecutionHistory_suffix [of 2 "sampleSOAR\<lparr>executionHistory := sampleLedger\<rparr>"]
    getExecutionHistory_suffix [of 5 "sampleSOAR\<lparr>executionHistory := sampleLedger\<rparr>"]
    getExecutionHistory_suffix [of 10 "sampleSOAR\<lparr>executionHistory := sampleLedger\<rparr>"]
  by (simp add: sampleLedger_def)


section \<open>Condition step on \<^verbatim>\<open>acknowledged\<close> with no incident bound\<close>

lemma strict_eq_false: "strict_eq (JBool False) x \<longleftrightarrow> x = JBool False"
  by (cases x) auto

text \<open>
  C10. With no incident bound the field \<^verbatim>\<open>acknowledged\<close> resolves to the boolean
  \<^verbatim>\<open>false\<close>, so the step reports success exactly when the configured value is the
  boolean \<^verbatim>\<open>false\<close>.
\<close>

theorem executeCondition_acknowledged_unbound:
  "condition (config step) = Some c \<Longrightarrow> cond_field c = ''acknowledged'' \<Longrightarrow>
     executeCondition step violation None st
       = \<lparr>success = (cond_value c = JBool False), data = None\<rparr>"
  by (simp add: executeCondition_def strict_eq_false)

text \<open>
  The third step of the certificate playbook succeeds with no incident bound; the same
  step configured with the string \<^verbatim>\<open>"false"\<close> does not.
\<close>

theorem executeCondition_acknowledged_unbound_witness:
  "success (executeCondition (steps cert_expiry_alert ! 2) sampleViolation None sampleSOAR)
   \<and> \<not> success (executeCondition
         ((steps cert_expiry_alert ! 2)\<lparr>config := noConfig\<lparr>condition :=
            Some \<lparr>cond_field = ''acknowledged'', operator = ''equals'',
              cond_value = JStr ''false''\<rparr>\<rparr>\<rparr>) sampleViolation None sampleSOAR)"
  using executeCondition_acknowledged_unbound
      [of "steps cert_expiry_alert ! 2"
          "\<lparr>cond_field = ''acknowledged'', operator = ''equals'', cond_value = JBool False\<rparr>"
          sampleViolation sampleSOAR]
    executeCondition_acknowledged_unbound
      [of "(steps cert_expiry_alert ! 2)\<lparr>config := noConfig\<lparr>condition :=
            Some \<lparr>cond_field = ''acknowledged'', operator = ''equals'',
              cond_value = JStr ''false''\<rparr>\<rparr>\<rparr>"
          "\<lparr>cond_field = ''acknowledged'', operator = ''equals'', cond_value = JStr ''false''\<rparr>"
          sampleViolation sampleSOAR]
  by (simp add: cert_expiry_alert_def mkStep_def noConfig_def)

section \<open>Certificate check\<close>

text \<open>
  C2. The violations that \<open>checkCertificate\<close> yields for a certificate fact, by title,
  severity and asset, whatever the rendering of numbers: first the expiry violation, critical up to 7 days left, high above 7
  and up to 30, medium above 30 and up to 60, none above 60; then, whatever the days
  left, a critical violation when the certificate is not valid. Both are present for an
  invalid certificate with at most 60 days left.
\<close>

theorem checkCertificate_severities:
  "map (\<lambda>v. (title v, severity v, assetIdentifier v))
       (fst (checkCertificate stringify numberToString cert policies w)) =
     (if daysUntilExpiry cert \<le> 7 then
        [(''Certificate Expiring in '' @ numberToString (daysUntilExpiry cert) @ '' Days'',
          critical, cert_domain cert)]
      else if daysUntilExpiry cert \<le> 30 then
        [(''Certificate Expiring in '' @ numberToString (daysUntilExpiry cert) @ '' Days'',
          high, cert_domain cert)]
      else if daysUntilExpiry cert \<le> 60 then
        [(''Certificate Expiring in '' @ numberToString (daysUntilExpiry cert) @ '' Days'',
          medium, cert_domain cert)]
      else [])
     @ (if isValid cert then []
        else [(''Invalid SSL/TLS Certificate'', critical, cert_domain cert)])"
  by (simp add: checkCertificate_def checkCertificateExpiry_def Let_def uuidv4_def newDate_def
        split: prod.splits)

text \<open>An invalid certificate with 20 days left, and a valid one with 90.\<close>

theorem checkCertificate_severities_witness:
  "map (\<lambda>v. (title v, severity v, assetIdentifier v))
       (fst (checkCertificate (\<lambda>c. ''{}'') show_int sampleCert [] sampleWorld))
     = [(''Certificate Expiring in 20 Days'', high, ''example.com''),
        (''Invalid SSL/TLS Certificate'', critical, ''example.com'')]
   \<and> fst (checkCertificate (\<lambda>c. ''{}'') show_int
        (sampleCert\<lparr>isValid := True, daysUntilExpiry := 90\<rparr>) [] sampleWorld) = []"
  using checkCertificate_severities [of "\<lambda>c. ''{}''" show_int sampleCert "[]" sampleWorld]
    checkCertificate_severities
      [of "\<lambda>c. ''{}''" show_int "sampleCert\<lparr>isValid := True, daysUntilExpiry := 90\<rparr>" "[]"
          sampleWorld]
  by (simp add: sampleCert_def show_int_def)


section \<open>Status of a violation\<close>

text \<open>
  C5, as the code has it. For every stored violation \<open>updateViolationStatus\<close> writes the
  status it is given, whatever the status before: no transition is refused. The call
  returns the stored object. When the new status is \<^verbatim>\<open>resolved\<close>, \<open>resolvedAt\<close> is set,
  to the second clock reading of the call; otherwise it is left as it was.
\<close>

theorem updateViolationStatus_any_status:
  "getViolation st ident = Some v \<Longrightarrow>
     (case updateViolationStatus ident s st of
        (r, st') \<Rightarrow> r = getViolation st' ident
          \<and> (\<exists>v'. r = Some v' \<and> status v' = s
                \<and> resolvedAt v' =
                    (if s = v_resolved then Some (clockAt st (Suc (dateCalls st)))
                     else resolvedAt v)))"
  by (auto simp: getViolation_def updateViolationStatus_def newDate_def Let_def
        AList.map_of_map_entry)

text \<open>The stored violation is moved to \<^verbatim>\<open>investigating\<close> and then to \<^verbatim>\<open>resolved\<close>.\<close>

theorem updateViolationStatus_any_status_witness:
  "map_option (\<lambda>v. (status v, resolvedAt v))
      (getViolation (snd (updateViolationStatus ''v-1'' v_resolved
         (snd (updateViolationStatus ''v-1'' v_investigating sampleDetector)))) ''v-1'')
     = Some (v_resolved, Some 1002)"
  using updateViolationStatus_any_status
      [of "snd (updateViolationStatus ''v-1'' v_investigating sampleDetector)" "''v-1''"
          "the (getViolation
             (snd (updateViolationStatus ''v-1'' v_investigating sampleDetector)) ''v-1'')"
          v_resolved]
  by (simp add: sampleDetector_def getViolation_def updateViolationStatus_def newDate_def
        tickingClock_def Let_def split: prod.splits)

text \<open>C5 as stated fails: a resolved violation is moved back to \<^verbatim>\<open>open\<close>.\<close>

theorem updateViolationStatus_reopens_counterexample:
  "map_option status (getViolation sampleDetector ''v-1'') = Some v_resolved
   \<and> map_option status
        (getViolation (snd (updateViolationStatus ''v-1'' v_open sampleDetector)) ''v-1'')
      = Some v_open"
  by (simp add: sampleDetector_def getViolation_def updateViolationStatus_def newDate_def Let_def)


section \<open>Closing an incident\<close>

text \<open>
  C7, as the code has it. For every incident id of the store, \<open>updateIncident\<close> with
  the status \<^verbatim>\<open>closed\<close> followed by \<open>getIncident\<close> returns an incident whose status is
  \<^verbatim>\<open>closed\<close>, whose \<open>updatedAt\<close> is the clock reading that the update took, and whose
  timeline is the one it had.
\<close>

theorem updateIncident_close_roundtrip:
  "getIncident st ident = Some i \<Longrightarrow>
     (case updateIncident ident closeUpdate st of
        (r, st') \<Rightarrow> r = Some ident
          \<and> (\<exists>i'. getIncident st' ident = Some i' \<and> inc_status i' = i_closed
                \<and> inc_updatedAt i' = clockAt st (dateCalls st)
                \<and> timeline i' = timeline i))"
  by (auto simp: getIncident_def updateIncident_def modify_def newDate_def Let_def
        AList.map_of_map_entry object_assign_def assign_opt_def closeUpdate_def)

text \<open>
  With a clock that advances, the incident created at the readings 1000 to 1002 is
  closed at 1003 and keeps its one event.
\<close>

theorem updateIncident_close_roundtrip_witness:
  "map_option (\<lambda>i. (inc_updatedAt i, length (timeline i))) (getIncident createdSOAR ''id-0'')
     = Some (1002, 1)
   \<and> map_option (\<lambda>i. (inc_status i, inc_updatedAt i, length (timeline i)))
        (getIncident (snd (updateIncident ''id-0'' closeUpdate createdSOAR)) ''id-0'')
      = Some (i_closed, 1003, 1)"
  using updateIncident_close_roundtrip
      [of createdSOAR "''id-0''" "the (getIncident createdSOAR ''id-0'')"]
  by (simp add: createdSOAR_def sampleSOAR_def newSOARAutomation_def
        createIncidentFromViolation_def uuidv4_def newDate_def Let_def countingIds_def
        tickingClock_def getIncident_def updateIncident_def modify_def split: prod.splits)

text \<open>
  C7 as stated fails: when creation and update fall into the same millisecond,
  \<open>updatedAt\<close> after the update is not greater than before.
\<close>

theorem updateIncident_same_millisecond_counterexample:
  "getIncident frozenSOAR ''id-0'' \<noteq> None
   \<and> \<not> inc_updatedAt (the (getIncident frozenSOAR ''id-0''))
        < inc_updatedAt
            (the (getIncident (snd (updateIncident ''id-0'' closeUpdate frozenSOAR)) ''id-0''))"
  by (simp add: frozenSOAR_def newSOARAutomation_def createIncidentFromViolation_def
        uuidv4_def newDate_def Let_def countingIds_def frozenClock_def getIncident_def
        updateIncident_def modify_def)


section \<open>Step executor: termination\<close>

lemma currentStep_SomeD:
  "currentStep pb cur = Some step \<Longrightarrow> step \<in> set (steps pb) \<and> cur = Some (step_id step)"
  by (auto simp: currentStep_def find_Some_iff split: if_splits)

lemma stepLoop_exit:
  "currentStep pb cur = None \<Longrightarrow> stepLoop pb v cur inc st = Some (Inr inc, st)"
  by (subst stepLoop.simps) (simp add: loopIteration_def)

lemma stepLoop_throw:
  "currentStep pb cur = Some step \<Longrightarrow> executeStep step v inc st = (Inl e, st1) \<Longrightarrow>
     stepLoop pb v cur inc st = Some (Inl e, st1)"
  by (subst stepLoop.simps) (simp add: loopIteration_def)

lemma stepLoop_continue:
  "currentStep pb cur = Some step \<Longrightarrow> executeStep step v inc st = (Inr r, st1) \<Longrightarrow>
     stepLoop pb v cur inc st =
       stepLoop pb v (if success r then onSuccess step else onFailure step)
         (if createsIncident step then data r else inc) st1"
  by (subst stepLoop.simps) (simp add: loopIteration_def)

lemma stepLoop_terminates_below:
  fixes rank :: "string \<Rightarrow> nat"
  assumes rank: "\<And>s s'. s \<in> set (steps pb) \<Longrightarrow> s' \<in> set (steps pb) \<Longrightarrow>
        onSuccess s = Some (step_id s') \<or> onFailure s = Some (step_id s') \<Longrightarrow>
        rank (step_id s') < rank (step_id s)"
  shows "(\<And>step. currentStep pb cur = Some step \<Longrightarrow> rank (step_id step) < k) \<Longrightarrow>
     \<exists>out. stepLoop pb v cur inc st = Some out"
proof (induction k arbitrary: cur inc st)
  case 0
  then have "currentStep pb cur = None" by (cases "currentStep pb cur") auto
  then show ?case by (simp add: stepLoop_exit)
next
  case (Suc k)
  show ?case
  proof (cases "currentStep pb cur")
    case None
    then show ?thesis by (simp add: stepLoop_exit)
  next
    case (Some step)
    then have mem: "step \<in> set (steps pb)" by (simp add: currentStep_SomeD)
    have below: "rank (step_id step) < Suc k" using Suc.prems Some by blast
    obtain res st1 where ex: "executeStep step v inc st = (res, st1)" by (cases "executeStep step v inc st")
    show ?thesis
    proof (cases res)
      case (Inl e)
      with Some ex show ?thesis by (simp add: stepLoop_throw)
    next
      case (Inr r)
      let ?next = "if success r then onSuccess step else onFailure step"
      have "\<exists>out. stepLoop pb v ?next (if createsIncident step then data r else inc) st1 = Some out"
      proof (rule Suc.IH)
        fix step'
        assume cs: "currentStep pb ?next = Some step'"
        then have "step' \<in> set (steps pb)" and "?next = Some (step_id step')"
          by (simp_all add: currentStep_SomeD)
        then have "rank (step_id step') < rank (step_id step)"
          using rank [OF mem, of step'] by (auto split: if_splits)
        with below show "rank (step_id step') < k" by simp
      qed
      with Some ex Inr show ?thesis by (simp add: stepLoop_continue)
    qed
  qed
qed

lemma stepLoop_terminates:
  fixes rank :: "string \<Rightarrow> nat"
  assumes "\<And>s s'. s \<in> set (steps pb) \<Longrightarrow> s' \<in> set (steps pb) \<Longrightarrow>
        onSuccess s = Some (step_id s') \<or> onFailure s = Some (step_id s') \<Longrightarrow>
        rank (step_id s') < rank (step_id s)"
  shows "\<exists>out. stepLoop pb v cur inc st = Some out"
proof (rule stepLoop_terminates_below [where k = "Suc (case cur of None \<Rightarrow> 0 | Some c \<Rightarrow> rank c)"])
  show "\<And>s s'. s \<in> set (steps pb) \<Longrightarrow> s' \<in> set (steps pb) \<Longrightarrow>
        onSuccess s = Some (step_id s') \<or> onFailure s = Some (step_id s') \<Longrightarrow>
        rank (step_id s') < rank (step_id s)" by (rule assms)
next
  fix step assume "currentStep pb cur = Some step"
  then have "cur = Some (step_id step)" by (simp add: currentStep_SomeD)
  then show "rank (step_id step) < Suc (case cur of None \<Rightarrow> 0 | Some c \<Rightarrow> rank c)" by simp
qed

lemma executePlaybook_returns:
  "stepLoop pb v (firstStepId pb) None st = Some out \<Longrightarrow> \<exists>r. executePlaybook pb v st = Some r"
  by (cases out) (auto simp: executePlaybook_def Let_def split: sum.splits prod.splits)

lemma looping_iteration:
  "loopIteration loopingPlaybook v (Some ''again'') inc st = Continue (Some ''again'') inc st"
  by (simp add: loopIteration_def currentStep_def loopingPlaybook_def mkStep_def noConfig_def
        executeStep_def executeRemediation_def createsIncident_def)

lemma looping_never_returns:
  assumes "stepLoop pb v cur inc st = Some y"
  shows "pb = loopingPlaybook \<longrightarrow> cur = Some ''again'' \<longrightarrow> False"
proof (rule stepLoop.raw_induct
        [where P = "\<lambda>pb v cur inc st y. pb = loopingPlaybook \<longrightarrow> cur = Some ''again'' \<longrightarrow> False",
         OF _ assms], intro impI)
  fix f pb v cur inc st y
  assume IH: "\<And>pb v cur inc st y. f pb v cur inc st = Some y \<Longrightarrow>
                pb = loopingPlaybook \<longrightarrow> cur = Some ''again'' \<longrightarrow> False"
    and body: "(case loopIteration pb v cur inc st of
                  Exit i st1 \<Rightarrow> Some (Inr i, st1)
                | Throw e st1 \<Rightarrow> Some (Inl e, st1)
                | Continue next i st1 \<Rightarrow> f pb v next i st1) = Some y"
    and pb: "pb = loopingPlaybook" and cur: "cur = Some ''again''"
  from body pb cur have "f loopingPlaybook v (Some ''again'') inc st = Some y"
    by (simp add: looping_iteration)
  from IH [OF this] show False by simp
qed

lemma unchanged_pass_never_returns:
  assumes run: "stepLoop pb v cur inc st = Some y"
    and same: "loopIteration pb v cur inc st = Continue cur inc st"
  shows False
proof -
  have "pb = pb \<and> v = v \<and> cur = cur \<and> inc = inc \<and> st = st \<longrightarrow> False"
  proof (rule stepLoop.raw_induct
      [where P = "\<lambda>pb' v' cur' inc' st' y.
         pb' = pb \<and> v' = v \<and> cur' = cur \<and> inc' = inc \<and> st' = st \<longrightarrow> False", OF _ run],
      intro impI)
    fix f pb' v' cur' inc' st' y
    assume IH: "\<And>pb' v' cur' inc' st' y. f pb' v' cur' inc' st' = Some y \<Longrightarrow>
                  pb' = pb \<and> v' = v \<and> cur' = cur \<and> inc' = inc \<and> st' = st \<longrightarrow> False"
      and body: "(case loopIteration pb' v' cur' inc' st' of
                    Exit i st1 \<Rightarrow> Some (Inr i, st1)
                  | Throw e st1 \<Rightarrow> Some (Inl e, st1)
                  | Continue next i st1 \<Rightarrow> f pb' v' next i st1) = Some y"
      and eq: "pb' = pb \<and> v' = v \<and> cur' = cur \<and> inc' = inc \<and> st' = st"
    from body eq same have "f pb v cur inc st = Some y" by simp
    from IH [OF this] show False by simp
  qed
  then show False by simp
qed

text \<open>
  C4, as the code has it. If the references of a playbook form no cycle, that is, some
  ranking of the step ids falls along every \<open>onSuccess\<close> and \<open>onFailure\<close> reference to a
  step of the playbook, then a run returns, and the loop leaves from every value of
  its variables. For every playbook, with or without a cycle: after a handler that
  returns, the loop goes on at \<open>onSuccess\<close> when it reported success and at \<open>onFailure\<close>
  when it did not; a transition that is absent, or the empty string, ends the run; a
  transition to an id that no step of the playbook has ends the run by the normal
  exit, not by an error; and a run in which some pass of the loop leaves the current
  step id, the bound incident and the state as they were never returns.
\<close>

theorem run_terminates_without_cycle:
  fixes rank :: "string \<Rightarrow> nat"
  shows "((\<forall>s\<in>set (steps pb). \<forall>s'\<in>set (steps pb).
             onSuccess s = Some (step_id s') \<or> onFailure s = Some (step_id s')
               \<longrightarrow> rank (step_id s') < rank (step_id s))
          \<longrightarrow> (\<exists>r. executePlaybook pb v st = Some r)
             \<and> (\<forall>cur inc s. \<exists>out. stepLoop pb v cur inc s = Some out))
    \<and> (\<forall>cur inc s step r s1.
          currentStep pb cur = Some step \<longrightarrow> executeStep step v inc s = (Inr r, s1) \<longrightarrow>
          stepLoop pb v cur inc s =
            stepLoop pb v (if success r then onSuccess step else onFailure step)
              (if createsIncident step then data r else inc) s1)
    \<and> (\<forall>cur inc s. \<not> truthy cur \<longrightarrow> stepLoop pb v cur inc s = Some (Inr inc, s))
    \<and> (\<forall>c inc s. (\<forall>x\<in>set (steps pb). step_id x \<noteq> c) \<longrightarrow>
          stepLoop pb v (Some c) inc s = Some (Inr inc, s))
    \<and> (\<forall>cur inc s. loopIteration pb v cur inc s = Continue cur inc s \<longrightarrow>
          stepLoop pb v cur inc s = None)"
proof -
  have acyclic: "(\<exists>r. executePlaybook pb v st = Some r)
      \<and> (\<forall>cur inc s. \<exists>out. stepLoop pb v cur inc s = Some out)"
    if ranked: "\<forall>s\<in>set (steps pb). \<forall>s'\<in>set (steps pb).
             onSuccess s = Some (step_id s') \<or> onFailure s = Some (step_id s')
               \<longrightarrow> rank (step_id s') < rank (step_id s)"
  proof -
    have fin: "\<exists>out. stepLoop pb v cur inc s = Some out" for cur inc s
      using ranked by (intro stepLoop_terminates [where rank = rank]) blast
    then obtain out where "stepLoop pb v (firstStepId pb) None st = Some out" by blast
    then have "\<exists>r. executePlaybook pb v st = Some r" by (rule executePlaybook_returns)
    with fin show ?thesis by blast
  qed
  have falsy: "stepLoop pb v cur inc s = Some (Inr inc, s)" if "\<not> truthy cur" for cur inc s
    using that by (simp add: stepLoop_exit currentStep_def)
  have unresolved: "stepLoop pb v (Some c) inc s = Some (Inr inc, s)"
    if "\<forall>x\<in>set (steps pb). step_id x \<noteq> c" for c inc s
  proof -
    have "find (\<lambda>s. Some (step_id s) = Some c) (steps pb) = None"
      using that by (auto simp: find_None_iff)
    then show ?thesis by (simp add: stepLoop_exit currentStep_def)
  qed
  have stuck: "stepLoop pb v cur inc s = None"
    if "loopIteration pb v cur inc s = Continue cur inc s" for cur inc s
    using unchanged_pass_never_returns [OF _ that]
    by (cases "stepLoop pb v cur inc s") auto
  show ?thesis
    using acyclic falsy unresolved stuck by (simp add: stepLoop_continue)
qed

text \<open>
  The first default playbook has no cycle: its run returns, and the transition to the
  id \<^verbatim>\<open>end\<close>, which no step has, leaves the loop with the bound incident. The step of
  the looping playbook leaves the loop variables as they are: from there the loop never
  returns.
\<close>

theorem run_terminates_without_cycle_witness:
  "(\<exists>r. executePlaybook critical_alert sampleViolation sampleSOAR = Some r)
   \<and> stepLoop critical_alert sampleViolation (Some ''end'') (Some ''id-0'') createdSOAR
       = Some (Inr (Some ''id-0''), createdSOAR)
   \<and> stepLoop loopingPlaybook sampleViolation (Some ''again'') (Some ''id-0'') createdSOAR
       = None"
proof -
  have "\<forall>s\<in>set (steps critical_alert). \<forall>s'\<in>set (steps critical_alert).
          onSuccess s = Some (step_id s') \<or> onFailure s = Some (step_id s')
            \<longrightarrow> criticalAlertRank (step_id s') < criticalAlertRank (step_id s)"
    by (simp add: critical_alert_def mkStep_def criticalAlertRank_def)
  with run_terminates_without_cycle
    [of critical_alert criticalAlertRank sampleViolation sampleSOAR]
  have "(\<exists>r. executePlaybook critical_alert sampleViolation sampleSOAR = Some r)
    \<and> stepLoop critical_alert sampleViolation (Some ''end'') (Some ''id-0'') createdSOAR
        = Some (Inr (Some ''id-0''), createdSOAR)"
    by (simp add: critical_alert_def mkStep_def)
  moreover have "stepLoop loopingPlaybook sampleViolation (Some ''again'') (Some ''id-0'')
      createdSOAR = None"
    using run_terminates_without_cycle [of loopingPlaybook criticalAlertRank sampleViolation sampleSOAR]
    by (simp add: looping_iteration)
  ultimately show ?thesis by simp
qed

text \<open>
  C4 as stated fails: the run of a playbook whose only step succeeds and names itself
  as its successor never returns.
\<close>

theorem looping_playbook_counterexample:
  "executePlaybook loopingPlaybook sampleViolation sampleSOAR = None"
proof -
  have "stepLoop loopingPlaybook sampleViolation (Some ''again'') None sampleSOAR = None"
    using looping_never_returns [of loopingPlaybook sampleViolation "Some ''again''" None sampleSOAR]
    by (cases "stepLoop loopingPlaybook sampleViolation (Some ''again'') None sampleSOAR") auto
  moreover have "firstStepId loopingPlaybook = Some ''again''"
    by (simp add: firstStepId_def loopingPlaybook_def mkStep_def)
  ultimately show ?thesis by (simp add: executePlaybook_def)
qed

section \<open>Runs that throw\<close>

text \<open>What every step preserves, the loop preserves from its start to its exit.\<close>

lemma loopIteration_cases:
  "loopIteration pb v cur inc st = Exit i s \<Longrightarrow> i = inc \<and> s = st"
  "loopIteration pb v cur inc st = Throw e s \<Longrightarrow>
     \<exists>step. currentStep pb cur = Some step \<and> executeStep step v inc st = (Inl e, s)"
  "loopIteration pb v cur inc st = Continue n i s \<Longrightarrow>
     \<exists>step r. currentStep pb cur = Some step \<and> executeStep step v inc st = (Inr r, s)"
  by (auto simp: loopIteration_def split: option.splits prod.splits sum.splits)

lemma stepLoop_invariant:
  assumes run: "stepLoop pb v cur inc st = Some y"
    and step: "\<And>step inc s r s'. executeStep step v inc s = (r, s') \<Longrightarrow> Q s \<Longrightarrow> Q s'"
  shows "Q st \<longrightarrow> Q (snd y)"
proof -
  have "pb = pb \<and> v = v \<longrightarrow> Q st \<longrightarrow> Q (snd y)"
  proof (rule stepLoop.raw_induct
      [where P = "\<lambda>pb' v' cur inc st y. pb' = pb \<and> v' = v \<longrightarrow> Q st \<longrightarrow> Q (snd y)", OF _ run],
      intro impI)
    fix f pb' v' cur inc st y
    assume IH: "\<And>pb' v' cur inc st y. f pb' v' cur inc st = Some y \<Longrightarrow>
                  pb' = pb \<and> v' = v \<longrightarrow> Q st \<longrightarrow> Q (snd y)"
      and body: "(case loopIteration pb' v' cur inc st of
                    Exit i st1 \<Rightarrow> Some (Inr i, st1)
                  | Throw e st1 \<Rightarrow> Some (Inl e, st1)
                  | Continue next i st1 \<Rightarrow> f pb' v' next i st1) = Some y"
      and eq: "pb' = pb \<and> v' = v" and Q: "Q st"
    show "Q (snd y)"
    proof (cases "loopIteration pb' v' cur inc st")
      case (Exit i s)
      with body Q loopIteration_cases(1) [OF Exit] show ?thesis by auto
    next
      case (Throw e s)
      from loopIteration_cases(2) [OF Throw] eq step Q have "Q s" by blast
      with body Throw show ?thesis by auto
    next
      case (Continue n i s)
      from loopIteration_cases(3) [OF Continue] eq step Q have "Q s" by blast
      moreover from body Continue have "f pb' v' n i s = Some y" by simp
      ultimately show ?thesis using IH eq by blast
    qed
  qed
  then show ?thesis by simp
qed

lemma registered_modify:
  "(\<And>i. inc_id (f i) = inc_id i \<and> violationIds (f i) = violationIds i) \<Longrightarrow>
     registered v k (modify r f st) = registered v k st"
  by (auto simp: registered_def getIncident_def modify_def AList.map_of_map_entry
        split: option.splits)

lemma registered_counters [simp]:
  "registered v k (st\<lparr>dateCalls := d\<rparr>) = registered v k st"
  "registered v k (st\<lparr>uuidCalls := u\<rparr>) = registered v k st"
  "registered v k (st\<lparr>executionHistory := h\<rparr>) = registered v k st"
  by (simp_all add: registered_def getIncident_def)

lemma registered_addIncidentEvent [simp]:
  "registered v k (addIncidentEvent r t d a x st) = registered v k st"
  by (simp add: addIncidentEvent_def Let_def uuidv4_def newDate_def registered_modify)

lemma registered_create:
  "registered v k st \<Longrightarrow> registered v k (snd (createIncidentFromViolation v st))"
  "registered v (uuidAt st (uuidCalls st)) (snd (createIncidentFromViolation v st))"
  "fst (createIncidentFromViolation v st) = uuidAt st (uuidCalls st)"
  by (auto simp: createIncidentFromViolation_def Let_def uuidv4_def newDate_def registered_def
        getIncident_def AList.update_conv' split: option.splits)

lemma executeAction_registered:
  "registered v k st \<Longrightarrow> registered v k (snd (executeAction step v inc st))"
  by (auto simp: executeAction_def Let_def newDate_def registered_modify registered_create
        case_prod_unfold split: option.splits)

lemma executeStep_registered:
  "executeStep step v inc st = (r, s') \<Longrightarrow> registered v k st \<Longrightarrow> registered v k s'"
  using executeAction_registered [of v k st step inc]
  by (auto simp: executeStep_def Let_def split: if_splits prod.splits)

lemma history_modify [simp]: "executionHistory (modify r f st) = executionHistory st"
  by (simp add: modify_def)

lemma executeStep_history:
  "executeStep step v inc st = (r, s') \<Longrightarrow> executionHistory st = h \<Longrightarrow> executionHistory s' = h"
  by (auto simp: executeStep_def executeAction_def createIncidentFromViolation_def
        addIncidentEvent_def Let_def uuidv4_def newDate_def
        split: if_splits prod.splits option.splits)

lemma stepLoop_registered:
  "stepLoop pb v cur inc st = Some (out, st1) \<Longrightarrow> registered v k st \<Longrightarrow> registered v k st1"
  using stepLoop_invariant [where Q = "registered v k" and y = "(out, st1)"]
    executeStep_registered by fastforce

lemma stepLoop_history:
  "stepLoop pb v cur inc st = Some (out, st1) \<Longrightarrow> executionHistory st1 = executionHistory st"
  using stepLoop_invariant
    [where Q = "\<lambda>s. executionHistory s = executionHistory st" and y = "(out, st1)" and st = st]
    executeStep_history by fastforce

lemma reaches_stepLoop:
  "reaches pb v c c' \<Longrightarrow>
     stepLoop pb v (fst c) (fst (snd c)) (snd (snd c))
       = stepLoop pb v (fst c') (fst (snd c')) (snd (snd c'))"
proof (induction rule: reaches.induct)
  case start
  show ?case by simp
next
  case (pass cur inc st cur' inc' st')
  have "stepLoop pb v cur inc st = stepLoop pb v cur' inc' st'"
    using pass.hyps(2) by (subst stepLoop.simps) simp
  with pass.IH show ?case by simp
qed

lemma executeStep_creates:
  "createsIncident step \<Longrightarrow>
     executeStep step v inc st =
       (Inr \<lparr>success = True, data = Some (uuidAt st (uuidCalls st))\<rparr>,
        snd (createIncidentFromViolation v st))"
  by (simp add: createsIncident_def executeStep_def executeAction_def case_prod_unfold
        registered_create)

lemma executePlaybook_caught:
  "stepLoop pb v (firstStepId pb) None st = Some (Inl e, st1) \<Longrightarrow>
     executePlaybook pb v st =
       Some (None, pb,
         st1\<lparr>dateCalls := Suc (dateCalls st1),
             executionHistory := executionHistory st @
               [\<lparr>playbookId = pb_id pb, executedAt = clockAt st1 (dateCalls st1),
                 result = Failure\<rparr>]\<rparr>)"
  using stepLoop_history [of pb v "firstStepId pb" None st "Inl e" st1]
  by (simp add: executePlaybook_def newDate_def)

lemma registered_listed:
  "registered v k st \<Longrightarrow>
     \<exists>i. getIncident st k = Some i \<and> i \<in> set (getAllIncidents st)
       \<and> inc_id i = k \<and> violationIds i = [v_id v]"
  by (auto simp: registered_def getIncident_def getAllIncidents_def
        split: option.splits dest!: map_of_SomeD intro!: image_eqI [where f = snd])

lemma create_projections [simp]:
  "uuidCalls (snd (createIncidentFromViolation v st)) = Suc (Suc (uuidCalls st))"
  "dateCalls (snd (createIncidentFromViolation v st)) = Suc (Suc (Suc (dateCalls st)))"
  "uuidAt (snd (createIncidentFromViolation v st)) = uuidAt st"
  "clockAt (snd (createIncidentFromViolation v st)) = clockAt st"
  "executionHistory (snd (createIncidentFromViolation v st)) = executionHistory st"
  by (simp_all add: createIncidentFromViolation_def Let_def uuidv4_def newDate_def)

lemma broken_run:
  "stepLoop brokenPlaybook v (firstStepId brokenPlaybook) None st
     = Some (Inl TypeError, snd (createIncidentFromViolation v st))"
proof -
  let ?a = "steps brokenPlaybook ! 0" and ?b = "steps brokenPlaybook ! 1"
  have a: "currentStep brokenPlaybook (firstStepId brokenPlaybook) = Some ?a"
    and ca: "createsIncident ?a" and na: "onSuccess ?a = Some ''b''"
    and b: "currentStep brokenPlaybook (Some ''b'') = Some ?b"
    by (simp_all add: brokenPlaybook_def currentStep_def firstStepId_def mkStep_def
          createsIncident_def noConfig_def)
  have "executeStep ?b v i s = (Inl TypeError, s)" for i s
    by (simp add: brokenPlaybook_def mkStep_def noConfig_def executeStep_def
          executeNotification_def)
  from stepLoop_throw [OF b this]
  show ?thesis
    using stepLoop_continue [OF a executeStep_creates [OF ca]] ca na by simp
qed


text \<open>
  C9. Let a run have reached a pass of the loop that executes a \<^verbatim>\<open>create_incident\<close>
  action step, and let the run fail with an uncaught error. Then \<open>executePlaybook\<close>
  returns \<^verbatim>\<open>null\<close>, leaves the playbook as it was and appends a failure to the ledger,
  and the incident that the step created is in the store after the call: \<open>getIncident\<close>
  finds it under the id it was created with, \<open>getAllIncidents\<close> lists it, and it still
  names the violation. Nothing is rolled back.
\<close>

theorem created_incident_survives_failed_run:
  assumes "reaches pb v (firstStepId pb, None, st) (cur, inc, s)"
    and "currentStep pb cur = Some step"
    and "createsIncident step"
    and "stepLoop pb v (firstStepId pb) None st = Some (Inl e, st1)"
  shows "\<exists>st' i. executePlaybook pb v st = Some (None, pb, st')
           \<and> executionHistory st' = executionHistory st @
               [\<lparr>playbookId = pb_id pb, executedAt = clockAt st1 (dateCalls st1),
                 result = Failure\<rparr>]
           \<and> getIncident st' (uuidAt s (uuidCalls s)) = Some i
           \<and> i \<in> set (getAllIncidents st')
           \<and> inc_id i = uuidAt s (uuidCalls s) \<and> violationIds i = [v_id v]"
proof -
  let ?k = "uuidAt s (uuidCalls s)"
  let ?s' = "snd (createIncidentFromViolation v s)"
  let ?st' = "st1\<lparr>dateCalls := Suc (dateCalls st1),
      executionHistory := executionHistory st @
        [\<lparr>playbookId = pb_id pb, executedAt = clockAt st1 (dateCalls st1), result = Failure\<rparr>]\<rparr>"
  have "stepLoop pb v (firstStepId pb) None st = stepLoop pb v cur inc s"
    using reaches_stepLoop [OF assms(1)] by simp
  also have "\<dots> = stepLoop pb v (onSuccess step) (Some ?k) ?s'"
    using stepLoop_continue [OF assms(2) executeStep_creates [OF assms(3)]] assms(3) by simp
  finally have "stepLoop pb v (onSuccess step) (Some ?k) ?s' = Some (Inl e, st1)"
    using assms(4) by simp
  then have "registered v ?k st1"
    by (rule stepLoop_registered) (rule registered_create(2))
  then have "registered v ?k ?st'" by simp
  from registered_listed [OF this] executePlaybook_caught [OF assms(4)]
  show ?thesis by auto
qed


text \<open>
  The playbook that notifies without recipients: its first step creates the incident
  \<^verbatim>\<open>id-0\<close>, its second step throws.
\<close>

theorem created_incident_survives_failed_run_witness:
  "\<exists>st' i. executePlaybook brokenPlaybook sampleViolation sampleSOAR
               = Some (None, brokenPlaybook, st')
     \<and> map result (executionHistory st') = [Failure]
     \<and> getIncident st' ''id-0'' = Some i \<and> i \<in> set (getAllIncidents st')
     \<and> inc_id i = ''id-0'' \<and> violationIds i = [''v-1'']"
proof -
  have cur: "currentStep brokenPlaybook (firstStepId brokenPlaybook)
               = Some (steps brokenPlaybook ! 0)"
    and cr: "createsIncident (steps brokenPlaybook ! 0)"
    by (simp_all add: brokenPlaybook_def currentStep_def firstStepId_def mkStep_def
          createsIncident_def noConfig_def)
  from created_incident_survives_failed_run [OF reaches.start cur cr broken_run]
  show ?thesis
    by (fastforce simp: sampleSOAR_def newSOARAutomation_def countingIds_def sampleViolation_def)
qed



section \<open>Failure isolation\<close>












section \<open>The time of the last run\<close>

text \<open>
  C6 on the playbook that notifies without recipients, which last ran at time 5. Its
  run creates an incident and then throws; the call returns \<^verbatim>\<open>null\<close> and files a
  failure in the ledger, at a clock reading of 1000 or more, and \<open>lastRun\<close> of the
  playbook is still 5.
\<close>

theorem failed_run_keeps_lastRun:
  "map_option (\<lambda>(i, p, s). (i, lastRun p, map result (executionHistory s)))
     (executePlaybook brokenPlaybook sampleViolation sampleSOAR)
   = Some (None, Some 5, [Failure])"
  by (simp add: executePlaybook_caught [OF broken_run])
     (simp add: brokenPlaybook_def sampleSOAR_def newSOARAutomation_def)

end
